theory Spec2Isabelle
  imports Main "HOL-Library.Multiset" "HOL-Library.Word"
begin

section \<open>Data model\<close>

text \<open>
  The TypeScript sources work on JSON values, hex strings and byte arrays. A
  \<^verbatim>\<open>HexString\<close>, a \<^verbatim>\<open>DidUrl\<close> and a \<^verbatim>\<open>HashType\<close> are strings at run time; a
  \<^verbatim>\<open>Uint8Array\<close> is a list of bytes. Time stamps (\<^verbatim>\<open>Date.now()\<close>) are integers.
  A \<^verbatim>\<open>Record<HexString, HexString>\<close> is kept as an association list, because the
  tests read it with \<^verbatim>\<open>Object.keys\<close> and \<^verbatim>\<open>Object.values\<close>, which depend on the
  insertion order.
\<close>

type_synonym HexString = string
type_synonym DidUrl = string
type_synonym HashType = string
type_synonym U8a = "8 word list"
type_synonym NonceMap = "(HexString \<times> HexString) list"

datatype AnyJson =
    JNull
  | JBool bool
  | JNumber int
  | JString string
  | JArray "AnyJson list"
  | JObject "(string \<times> AnyJson) list"

text \<open>A JavaScript \<^verbatim>\<open>Error\<close> carries its message. A call either throws (\<open>Inl\<close>) or
  returns (\<open>Inr\<close>).\<close>

datatype Error = Error string

text \<open>JavaScript truthiness, as used by \<^verbatim>\<open>&&\<close>, \<^verbatim>\<open>||\<close>, \<^verbatim>\<open>if\<close> and \<^verbatim>\<open>assert\<close>:
  \<^verbatim>\<open>undefined\<close>, \<^verbatim>\<open>null\<close>, \<^verbatim>\<open>false\<close>, \<^verbatim>\<open>0\<close> and \<^verbatim>\<open>''\<close> are falsy; every array and every
  object is truthy.\<close>

fun truthyJson :: "AnyJson \<Rightarrow> bool" where
  "truthyJson JNull = False"
| "truthyJson (JBool b) = b"
| "truthyJson (JNumber n) = (n \<noteq> 0)"
| "truthyJson (JString s) = (s \<noteq> [])"
| "truthyJson (JArray xs) = True"
| "truthyJson (JObject fs) = True"

section \<open>Leaf claims of a claim set\<close>

datatype PathStep = Key string | Index nat

text \<open>
  The specification speaks of the leaf claims of a claim set: nesting is flattened to
  leaf paths. \<open>spec_leaves\<close> follows these words (it has no counterpart in
  \<^verbatim>\<open>rootHash.ts\<close>, whose \<^verbatim>\<open>calcRoothash\<close> never inspects its input): a string, number,
  boolean or null is one leaf at its path, an object contributes the leaves of its
  fields in insertion order, an array those of its items.
\<close>

fun spec_leaves :: "PathStep list \<Rightarrow> AnyJson \<Rightarrow> (PathStep list \<times> AnyJson) list"
  and spec_leaves_fields :: "PathStep list \<Rightarrow> (string \<times> AnyJson) list \<Rightarrow> (PathStep list \<times> AnyJson) list"
  and spec_leaves_items :: "PathStep list \<Rightarrow> nat \<Rightarrow> AnyJson list \<Rightarrow> (PathStep list \<times> AnyJson) list"
where
  "spec_leaves p (JObject fs) = spec_leaves_fields p fs"
| "spec_leaves p (JArray xs) = spec_leaves_items p 0 xs"
| "spec_leaves p JNull = [(p, JNull)]"
| "spec_leaves p (JBool b) = [(p, JBool b)]"
| "spec_leaves p (JNumber n) = [(p, JNumber n)]"
| "spec_leaves p (JString s) = [(p, JString s)]"
| "spec_leaves_fields p [] = []"
| "spec_leaves_fields p (kv # fs) = spec_leaves (p @ [Key (fst kv)]) (snd kv) @ spec_leaves_fields p fs"
| "spec_leaves_items p i [] = []"
| "spec_leaves_items p i (x # xs) = spec_leaves (p @ [Index i]) x @ spec_leaves_items p (Suc i) xs"

section \<open>The commitment: \<^verbatim>\<open>packages/vc/src/rootHash.ts\<close>\<close>

record MerkleResult =
  hashes :: "HexString list"
  nonceMap :: NonceMap
  rootHash :: HexString

record RootHashResult = MerkleResult +
  type :: HashType

text \<open>\<^verbatim>\<open>DEFAULT_ROOT_HASH_TYPE\<close> is imported from \<^verbatim>\<open>./defaults\<close>; the doc comment of
  \<^verbatim>\<open>calcRoothash\<close> gives its value (``defaults is Keccak256'').\<close>

definition DEFAULT_ROOT_HASH_TYPE :: HashType where
  "DEFAULT_ROOT_HASH_TYPE = ''Keccak256''"

definition rootHashFromMerkle :: "HexString list \<Rightarrow> NonceMap \<Rightarrow> MerkleResult" where
  "rootHashFromMerkle hs nm = \<lparr>hashes = hs, nonceMap = nm, rootHash = ''0x''\<rparr>"

text \<open>
  \<^verbatim>\<open>calcRoothash(input, type = DEFAULT_ROOT_HASH_TYPE, nonceMap?)\<close>: an omitted argument
  is \<open>None\<close>. The body assigns \<^verbatim>\<open>{}\<close> to the parameter \<^verbatim>\<open>nonceMap\<close> and returns the
  spread of \<^verbatim>\<open>rootHashFromMerkle([], nonceMap)\<close> with \<^verbatim>\<open>type\<close>. It has no
  \<^verbatim>\<open>throw\<close>.
\<close>

definition calcRoothash :: "AnyJson \<Rightarrow> HashType option \<Rightarrow> NonceMap option \<Rightarrow> Error + RootHashResult" where
  "calcRoothash input type_arg nonceMap_arg =
     (let type_v = (case type_arg of None \<Rightarrow> DEFAULT_ROOT_HASH_TYPE | Some t \<Rightarrow> t);
          nonceMap_v = ([] :: NonceMap);
          m = rootHashFromMerkle [] nonceMap_v
      in Inr \<lparr>hashes = hashes m, nonceMap = nonceMap m, rootHash = rootHash m, type = type_v\<rparr>)"

section \<open>Collaborators of the builders\<close>

text \<open>
  The identity (\<^verbatim>\<open>Did\<close>), the digest calculator, the message wrapper, the base-58
  encoder, the clock and the defaults are imported from modules outside this
  development. They are parameters of the model. Every call made on a \<^verbatim>\<open>Did\<close> is
  recorded, in order, so that the key purpose and the message a signer receives can be
  stated.
\<close>

datatype Message = U8aMessage U8a | HexMessage HexString

record SignResult =
  sig_id :: DidUrl
  sig_signature :: U8a
  sig_type :: string

record Did =
  did_id :: DidUrl
  getKeyUrl :: "string \<Rightarrow> Error + DidUrl"
  signWithKey :: "Message \<Rightarrow> DidUrl \<Rightarrow> Error + SignResult"

datatype DidCall = GetKeyUrl string | SignWithKey Message DidUrl

record Proof =
  pf_type :: string
  pf_created :: int
  pf_verificationMethod :: DidUrl
  pf_proofPurpose :: string
  pf_proofValue :: string

record DigestPayload =
  dp_rootHash :: HexString
  dp_expirationDate :: "int option"
  dp_holder :: DidUrl
  dp_ctype :: HexString
  dp_issuanceDate :: "int option"

record DigestResult =
  dr_digest :: HexString
  dr_type :: HashType

record CType =
  ct_id :: HexString

text \<open>The fields of the class \<^verbatim>\<open>Raw\<close> that \<^verbatim>\<open>vc.ts\<close> reads.\<close>

record Raw =
  raw_contents :: AnyJson
  raw_hashType :: "HashType option"
  raw_ctype :: CType
  raw_owner :: DidUrl

text \<open>The fields of a \<^verbatim>\<open>RawCredential\<close> that \<^verbatim>\<open>fromRawCredential\<close> reads.\<close>

record RawCredential =
  rc_ctype :: HexString
  rc_hasher :: "HashType \<times> HashType"

record Env =
  checkSubject :: "Raw \<Rightarrow> bool"
  calcDigest :: "string \<Rightarrow> DigestPayload \<Rightarrow> HashType \<Rightarrow> Error + DigestResult"
  signedVCMessage :: "HexString \<Rightarrow> string \<Rightarrow> Message"
  base58Encode :: "U8a \<Rightarrow> string"
  now :: int
  isRawCredential :: "RawCredential \<Rightarrow> bool"
  Raw_fromRawCredential :: "RawCredential \<Rightarrow> CType \<Rightarrow> Raw"
  DEFAULT_CONTEXT :: "string list"
  DEFAULT_VC_VERSION :: string

section \<open>The credential builder: \<^verbatim>\<open>protocol/vc/src/credential/vc.ts\<close>\<close>

record VerifiableCredential =
  vc_context :: "string list"
  vc_version :: string
  vc_ctype :: HexString
  vc_issuanceDate :: int
  vc_credentialSubject :: AnyJson
  vc_issuer :: DidUrl
  vc_holder :: DidUrl
  vc_hasher :: "HashType \<times> HashType"
  vc_digest :: HexString
  vc_proof :: "Proof list"
  vc_credentialSubjectHashes :: "HexString list option"
  vc_credentialSubjectNonceMap :: "NonceMap option"
  vc_expirationDate :: "int option"

text \<open>An optional field is \<open>None\<close> while it is \<^verbatim>\<open>undefined\<close>; \<^verbatim>\<open>expirationDate\<close> is
  \<^verbatim>\<open>number | null\<close> once set.\<close>

datatype 'a Nullable = Null | Value 'a

record VerifiableCredentialBuilder =
  b_context :: "string list option"
  b_version :: "string option"
  b_issuanceDate :: "int option"
  b_expirationDate :: "int Nullable option"
  b_raw :: Raw
  b_digestHashType :: "HashType option"

fun truthyString :: "string option \<Rightarrow> bool" where
  "truthyString None = False"
| "truthyString (Some s) = (s \<noteq> [])"

fun truthyNumber :: "int option \<Rightarrow> bool" where
  "truthyNumber None = False"
| "truthyNumber (Some n) = (n \<noteq> 0)"

text \<open>\<^verbatim>\<open>this.expirationDate || undefined\<close> and \<^verbatim>\<open>if (this.expirationDate)\<close>: the number
  when it is set and not zero.\<close>

fun truthyExpiration :: "int Nullable option \<Rightarrow> int option" where
  "truthyExpiration None = None"
| "truthyExpiration (Some Null) = None"
| "truthyExpiration (Some (Value n)) = (if n \<noteq> 0 then Some n else None)"

definition new_VerifiableCredentialBuilder :: "Raw \<Rightarrow> VerifiableCredentialBuilder" where
  "new_VerifiableCredentialBuilder raw =
     \<lparr>b_context = None, b_version = None, b_issuanceDate = None, b_expirationDate = None,
      b_raw = raw, b_digestHashType = None\<rparr>"

definition setContext :: "string list \<Rightarrow> VerifiableCredentialBuilder \<Rightarrow> VerifiableCredentialBuilder" where
  "setContext c this = this\<lparr>b_context := Some c\<rparr>"

definition setVersion :: "string \<Rightarrow> VerifiableCredentialBuilder \<Rightarrow> VerifiableCredentialBuilder" where
  "setVersion v this = this\<lparr>b_version := Some v\<rparr>"

definition setIssuanceDate :: "int \<Rightarrow> VerifiableCredentialBuilder \<Rightarrow> VerifiableCredentialBuilder" where
  "setIssuanceDate t this = this\<lparr>b_issuanceDate := Some t\<rparr>"

definition setExpirationDate :: "int Nullable \<Rightarrow> VerifiableCredentialBuilder \<Rightarrow> VerifiableCredentialBuilder" where
  "setExpirationDate t this = this\<lparr>b_expirationDate := Some t\<rparr>"

definition setRaw :: "Raw \<Rightarrow> VerifiableCredentialBuilder \<Rightarrow> VerifiableCredentialBuilder" where
  "setRaw rawIn this = this\<lparr>b_raw := rawIn\<rparr>"

definition setDigestHashType :: "HashType \<Rightarrow> VerifiableCredentialBuilder \<Rightarrow> VerifiableCredentialBuilder" where
  "setDigestHashType h this = this\<lparr>b_digestHashType := Some h\<rparr>"

text \<open>A chain of setter calls on a builder, as a list of calls applied from left to
  right.\<close>

datatype Setter =
    SetContext "string list"
  | SetVersion string
  | SetIssuanceDate int
  | SetExpirationDate "int Nullable"
  | SetRaw Raw
  | SetDigestHashType HashType

fun applySetter :: "VerifiableCredentialBuilder \<Rightarrow> Setter \<Rightarrow> VerifiableCredentialBuilder" where
  "applySetter this (SetContext c) = setContext c this"
| "applySetter this (SetVersion v) = setVersion v this"
| "applySetter this (SetIssuanceDate t) = setIssuanceDate t this"
| "applySetter this (SetExpirationDate t) = setExpirationDate t this"
| "applySetter this (SetRaw r) = setRaw r this"
| "applySetter this (SetDigestHashType h) = setDigestHashType h this"

fun isSetExpirationDate :: "Setter \<Rightarrow> bool" where
  "isSetExpirationDate (SetExpirationDate t) = True"
| "isSetExpirationDate (SetContext c) = False"
| "isSetExpirationDate (SetVersion v) = False"
| "isSetExpirationDate (SetIssuanceDate t) = False"
| "isSetExpirationDate (SetRaw r) = False"
| "isSetExpirationDate (SetDigestHashType h) = False"

definition fromRawCredential :: "Env \<Rightarrow> RawCredential \<Rightarrow> CType \<Rightarrow> Error + VerifiableCredentialBuilder" where
  "fromRawCredential env rawCredential ctype =
     (if \<not> isRawCredential env rawCredential then Inl (Error ''input is not a RawCredential object'')
      else if ct_id ctype \<noteq> rc_ctype rawCredential then Inl (Error ''`ctype` is not the raw credential ctype'')
      else
        let raw = Raw_fromRawCredential env rawCredential ctype;
            builder = new_VerifiableCredentialBuilder raw
        in Inr (setDigestHashType (snd (rc_hasher rawCredential))
                 (setIssuanceDate (now env)
                   (setVersion (DEFAULT_VC_VERSION env)
                     (setContext (DEFAULT_CONTEXT env) builder)))))"

text \<open>
  \<^verbatim>\<open>_signDigest\<close>: the message is \<^verbatim>\<open>signedVCMessage(digest, version)\<close> for version
  \<^verbatim>\<open>'1'\<close> and the digest itself otherwise; the key is the one \<^verbatim>\<open>getKeyUrl\<close> gives for
  \<^verbatim>\<open>'assertionMethod'\<close>. The result pairs the calls made on the \<^verbatim>\<open>Did\<close> with the
  outcome.
\<close>

definition signDigest :: "Env \<Rightarrow> Did \<Rightarrow> HexString \<Rightarrow> string \<Rightarrow> DidCall list \<times> (Error + Proof)" where
  "signDigest env did digest version =
     (let message = (if version = ''1'' then signedVCMessage env digest version else HexMessage digest)
      in case getKeyUrl did ''assertionMethod'' of
           Inl e \<Rightarrow> ([GetKeyUrl ''assertionMethod''], Inl e)
         | Inr signDidUrl \<Rightarrow>
             (case signWithKey did message signDidUrl of
                Inl e \<Rightarrow> ([GetKeyUrl ''assertionMethod'', SignWithKey message signDidUrl], Inl e)
              | Inr r \<Rightarrow>
                  ([GetKeyUrl ''assertionMethod'', SignWithKey message signDidUrl],
                   Inr \<lparr>pf_type = sig_type r,
                        pf_created = now env,
                        pf_verificationMethod = sig_id r,
                        pf_proofPurpose = ''assertionMethod'',
                        pf_proofValue = base58Encode env (sig_signature r)\<rparr>)))"

text \<open>
  \<^verbatim>\<open>build(issuer, isPublic?)\<close>. The \<^verbatim>\<open>assert\<close> on \<^verbatim>\<open>checkSubject()\<close> comes first; its
  message interpolates the \<^verbatim>\<open>CType\<close> object. Then the five-part condition; when it
  fails the method throws at its end.
\<close>

definition buildReady :: "VerifiableCredentialBuilder \<Rightarrow> bool" where
  "buildReady this =
     (b_context this \<noteq> None \<and>
      truthyString (b_version this) \<and>
      truthyNumber (b_issuanceDate this) \<and>
      truthyString (b_digestHashType this) \<and>
      b_expirationDate this \<noteq> None)"

definition build :: "Env \<Rightarrow> VerifiableCredentialBuilder \<Rightarrow> Did \<Rightarrow> bool option
    \<Rightarrow> DidCall list \<times> (Error + VerifiableCredential)" where
  "build env this issuer isPublic =
     (if \<not> checkSubject env (b_raw this)
      then ([], Inl (Error ''Subject check failed when use ctype [object Object]''))
      else if buildReady this then
        (case (if isPublic = Some True
               then calcRoothash (raw_contents (b_raw this)) (raw_hashType (b_raw this)) None
               else calcRoothash (raw_contents (b_raw this)) (raw_hashType (b_raw this)) (Some [])) of
           Inl e \<Rightarrow> ([], Inl e)
         | Inr rootHashResult \<Rightarrow>
            (let digestPayload =
                   \<lparr>dp_rootHash = rootHash rootHashResult,
                    dp_expirationDate = truthyExpiration (b_expirationDate this),
                    dp_holder = raw_owner (b_raw this),
                    dp_ctype = ct_id (raw_ctype (b_raw this)),
                    dp_issuanceDate = b_issuanceDate this\<rparr>
             in case calcDigest env (the (b_version this)) digestPayload (the (b_digestHashType this)) of
                  Inl e \<Rightarrow> ([], Inl e)
                | Inr dr \<Rightarrow>
                   (case signDigest env issuer (dr_digest dr) (the (b_version this)) of
                      (calls, Inl e) \<Rightarrow> (calls, Inl e)
                    | (calls, Inr proof_v) \<Rightarrow>
                       (let vc0 =
                              \<lparr>vc_context = the (b_context this),
                               vc_version = the (b_version this),
                               vc_ctype = ct_id (raw_ctype (b_raw this)),
                               vc_issuanceDate = the (b_issuanceDate this),
                               vc_credentialSubject = raw_contents (b_raw this),
                               vc_issuer = did_id issuer,
                               vc_holder = raw_owner (b_raw this),
                               vc_hasher = (type rootHashResult, dr_type dr),
                               vc_digest = dr_digest dr,
                               vc_proof = [proof_v],
                               vc_credentialSubjectHashes = None,
                               vc_credentialSubjectNonceMap = None,
                               vc_expirationDate = None\<rparr>;
                            vc1 = (if isPublic \<noteq> Some True
                                   then vc0\<lparr>vc_credentialSubjectHashes := Some (hashes rootHashResult),
                                            vc_credentialSubjectNonceMap := Some (nonceMap rootHashResult)\<rparr>
                                   else vc0);
                            vc2 = (case truthyExpiration (b_expirationDate this) of
                                     Some n \<Rightarrow> vc1\<lparr>vc_expirationDate := Some n\<rparr>
                                   | None \<Rightarrow> vc1)
                        in (calls, Inr vc2)))))
      else ([], Inl (Error ''Can not to build an VerifiableCredential'')))"

section \<open>The credential class of \<^verbatim>\<open>packages/vc\<close>\<close>

text \<open>\<^verbatim>\<open>keyTypeToSignatureType\<close> of \<^verbatim>\<open>packages/vc/src/utils.ts\<close>.\<close>

definition keyTypeToSignatureType :: "string \<Rightarrow> Error + string" where
  "keyTypeToSignatureType t =
     (if t = ''EcdsaSecp256k1VerificationKey2019'' then Inr ''EcdsaSecp256k1Signature2019''
      else if t = ''Ed25519VerificationKey2020'' then Inr ''Ed25519Signature2018''
      else Inl (Error (''Can not transform type: '' @ t)))"

text \<open>
  The class \<^verbatim>\<open>Credential\<close> extends \<^verbatim>\<open>Base\<close>, which holds the fields and their setters.
  Here \<^verbatim>\<open>did.signWithKey\<close> takes the key purpose and the digest, and \<^verbatim>\<open>calcDigest\<close>
  takes the payload (without issuance date) and the hash type.
\<close>

record KeySignResult =
  ks_didUrl :: DidUrl
  ks_signature :: U8a
  ks_type :: string

record CredentialDid =
  cd_signWithKey :: "string \<Rightarrow> HexString \<Rightarrow> Error + KeySignResult"

datatype CredentialDidCall = SignWithKeyPurpose string HexString

record CredentialEnv =
  ce_calcDigest :: "DigestPayload \<Rightarrow> HashType option \<Rightarrow> Error + DigestResult"
  ce_base58Encode :: "U8a \<Rightarrow> string"
  ce_now :: int

record Credential =
  cred_context :: "string list option"
  cred_ctype :: "HexString option"
  cred_issuanceDate :: "int option"
  cred_expirationDate :: "int option"
  cred_credentialSubject :: "AnyJson option"
  cred_issuer :: "DidUrl option"
  cred_holder :: "DidUrl option"
  cred_digest :: "HexString option"
  cred_proof :: "Proof option"
  cred_hashType :: "HashType option"

record CredentialRaw =
  cr_context :: "string list"
  cr_version :: string
  cr_ctype :: HexString
  cr_issuanceDate :: int
  cr_expirationDate :: "int option"
  cr_credentialSubject :: AnyJson
  cr_credentialSubjectHashes :: "HexString list"
  cr_credentialSubjectNonceMap :: NonceMap
  cr_issuer :: "DidUrl list"
  cr_holder :: DidUrl

record CredentialVC = CredentialRaw +
  cv_digest :: HexString
  cv_proof :: "Proof list"

fun truthyJsonOpt :: "AnyJson option \<Rightarrow> bool" where
  "truthyJsonOpt None = False"
| "truthyJsonOpt (Some j) = truthyJson j"

definition signProof :: "CredentialEnv \<Rightarrow> Credential \<Rightarrow> CredentialDid
    \<Rightarrow> CredentialDidCall list \<times> (Error + Credential)" where
  "signProof env this did =
     (if \<not> truthyJsonOpt (cred_credentialSubject this) then ([], Inl (Error ''credentialSubject is null''))
      else if \<not> truthyString (cred_holder this) then ([], Inl (Error ''holder is null''))
      else if \<not> truthyString (cred_ctype this) then ([], Inl (Error ''ctype is null''))
      else
        (case calcRoothash (the (cred_credentialSubject this)) (cred_hashType this) None of
           Inl e \<Rightarrow> ([], Inl e)
         | Inr rh \<Rightarrow>
            (case ce_calcDigest env
                    \<lparr>dp_rootHash = rootHash rh,
                     dp_expirationDate = cred_expirationDate this,
                     dp_holder = the (cred_holder this),
                     dp_ctype = the (cred_ctype this),
                     dp_issuanceDate = None\<rparr>
                    (cred_hashType this) of
               Inl e \<Rightarrow> ([], Inl e)
             | Inr dr \<Rightarrow>
                (case cd_signWithKey did ''assertionMethod'' (dr_digest dr) of
                   Inl e \<Rightarrow> ([SignWithKeyPurpose ''assertionMethod'' (dr_digest dr)], Inl e)
                 | Inr r \<Rightarrow>
                    (case keyTypeToSignatureType (ks_type r) of
                       Inl e \<Rightarrow> ([SignWithKeyPurpose ''assertionMethod'' (dr_digest dr)], Inl e)
                     | Inr signatureType \<Rightarrow>
                        ([SignWithKeyPurpose ''assertionMethod'' (dr_digest dr)],
                         Inr (this\<lparr>cred_digest := Some (dr_digest dr),
                                   cred_proof := Some
                                     \<lparr>pf_type = dr_type dr @ ''+'' @ signatureType,
                                      pf_created = ce_now env,
                                      pf_verificationMethod = ks_didUrl r,
                                      pf_proofPurpose = ''assertionMethod'',
                                      pf_proofValue = ce_base58Encode env (ks_signature r)\<rparr>\<rparr>)))))))"

definition getRawCredential :: "Credential \<Rightarrow> Error + CredentialRaw" where
  "getRawCredential this =
     (if cred_context this \<noteq> None \<and>
         truthyString (cred_ctype this) \<and>
         truthyNumber (cred_issuanceDate this) \<and>
         truthyJsonOpt (cred_credentialSubject this) \<and>
         truthyString (cred_issuer this) \<and>
         truthyString (cred_holder this)
      then
        (case calcRoothash (the (cred_credentialSubject this)) (cred_hashType this) None of
           Inl e \<Rightarrow> Inl e
         | Inr rh \<Rightarrow>
            Inr \<lparr>cr_context = the (cred_context this),
                 cr_version = ''0'',
                 cr_ctype = the (cred_ctype this),
                 cr_issuanceDate = the (cred_issuanceDate this),
                 cr_expirationDate = cred_expirationDate this,
                 cr_credentialSubject = the (cred_credentialSubject this),
                 cr_credentialSubjectHashes = hashes rh,
                 cr_credentialSubjectNonceMap = nonceMap rh,
                 cr_issuer = [the (cred_issuer this)],
                 cr_holder = the (cred_holder this)\<rparr>)
      else Inl (Error ''Not to serialize RawCredential''))"

definition getVC :: "Credential \<Rightarrow> Error + CredentialVC" where
  "getVC this =
     (case getRawCredential this of
        Inl e \<Rightarrow> Inl e
      | Inr raw \<Rightarrow>
         (if truthyString (cred_digest this) \<and> cred_proof this \<noteq> None
          then Inr (CredentialRaw.extend raw
                      \<lparr>cv_digest = the (cred_digest this), cv_proof = [the (cred_proof this)]\<rparr>)
          else Inl (Error ''Please sign a proof, or set Digest and proof'')))"

section \<open>The presentation builder\<close>

text \<open>
  The module \<^verbatim>\<open>./vp\<close> (\<^verbatim>\<open>VerifiablePresentationBuilder\<close>, \<^verbatim>\<open>hashDigests\<close>) is not among
  the sources; only its test is. The definitions of this section are written from the
  specification (section 4.4), with the names the test uses for the disclosure modes.
\<close>

datatype VPType = VP | VP_Digest | VP_SelectiveDisclosure

record VPEnv =
  hashDigests :: "HexString list \<Rightarrow> HashType \<Rightarrow> HexString"
  DEFAULT_VP_HASH_TYPE :: HashType
  nonceKeyOf :: "string \<Rightarrow> AnyJson \<Rightarrow> HexString"

record VerifiablePresentation =
  vp_type :: "VPType list"
  vp_verifiableCredential :: "VerifiableCredential list"
  vp_id :: HexString
  vp_proof :: Proof
  vp_hasher :: "HashType list"

record VerifiablePresentationBuilder =
  vpb_holder :: Did
  vpb_entries :: "(VerifiableCredential \<times> VPType \<times> string list) list"

text \<open>Modelled from the spec: the reduction of a claim set to the named fields, with
  their original values, of the Selective mode (the module \<^verbatim>\<open>./vp\<close> is missing). A
  field that the claim set does not have is not disclosed; a claim set that is not a
  mapping has no named field and is left as it is.\<close>

fun selectFields :: "string list \<Rightarrow> AnyJson \<Rightarrow> (string \<times> AnyJson) list" where
  "selectFields fs (JObject kvs) = filter (\<lambda>kv. fst kv \<in> set fs) kvs"
| "selectFields fs JNull = []"
| "selectFields fs (JBool b) = []"
| "selectFields fs (JNumber n) = []"
| "selectFields fs (JString s) = []"
| "selectFields fs (JArray xs) = []"

fun selectSubject :: "string list \<Rightarrow> AnyJson \<Rightarrow> AnyJson" where
  "selectSubject fs (JObject kvs) = JObject (selectFields fs (JObject kvs))"
| "selectSubject fs JNull = JNull"
| "selectSubject fs (JBool b) = JBool b"
| "selectSubject fs (JNumber n) = JNumber n"
| "selectSubject fs (JString s) = JString s"
| "selectSubject fs (JArray xs) = JArray xs"

text \<open>Modelled from the spec: the per-credential redaction of the presentation builder
  (the module \<^verbatim>\<open>./vp\<close> is missing). Full passes the credential through. DigestOnly
  replaces the claim set by the root hash (the test computes it as
  \<^verbatim>\<open>calcRoothash(contents, vc.hasher[0], vc.credentialSubjectNonceMap).rootHash\<close>) and
  clears the hash list and the nonce map. Selective keeps the named fields and the nonce
  entries that belong to them (\<open>nonceKeyOf\<close> gives the key of a field's entry), and the
  whole hash list.\<close>

definition redact :: "VPEnv \<Rightarrow> VPType \<Rightarrow> string list \<Rightarrow> VerifiableCredential \<Rightarrow> Error + VerifiableCredential" where
  "redact vpenv t fs vc =
     (case t of
        VP \<Rightarrow> Inr vc
      | VP_Digest \<Rightarrow>
          (case calcRoothash (vc_credentialSubject vc) (Some (fst (vc_hasher vc)))
                  (vc_credentialSubjectNonceMap vc) of
             Inl e \<Rightarrow> Inl e
           | Inr r \<Rightarrow>
               Inr (vc\<lparr>vc_credentialSubject := JString (rootHash r),
                       vc_credentialSubjectHashes := Some [],
                       vc_credentialSubjectNonceMap := Some []\<rparr>))
      | VP_SelectiveDisclosure \<Rightarrow>
          Inr (vc\<lparr>vc_credentialSubject := selectSubject fs (vc_credentialSubject vc),
                  vc_credentialSubjectNonceMap :=
                    map_option
                      (filter (\<lambda>e. fst e \<in> set (map (\<lambda>kv. nonceKeyOf vpenv (fst kv) (snd kv))
                                                    (selectFields fs (vc_credentialSubject vc)))))
                      (vc_credentialSubjectNonceMap vc)\<rparr>))"

text \<open>Modelled from the spec: each included credential is redacted on its own, in
  insertion order; the first failure ends the construction.\<close>

fun redactAll :: "VPEnv \<Rightarrow> (VerifiableCredential \<times> VPType \<times> string list) list
    \<Rightarrow> Error + VerifiableCredential list" where
  "redactAll vpenv [] = Inr []"
| "redactAll vpenv (entry # rest) =
     (case redact vpenv (fst (snd entry)) (snd (snd entry)) (fst entry) of
        Inl e \<Rightarrow> Inl e
      | Inr vc \<Rightarrow>
          (case redactAll vpenv rest of
             Inl e \<Rightarrow> Inl e
           | Inr vcs \<Rightarrow> Inr (vc # vcs)))"

text \<open>Modelled from the spec: a presentation builder starts with the holder's identity
  and no credential (the module \<^verbatim>\<open>./vp\<close> is missing).\<close>

definition new_VerifiablePresentationBuilder :: "Did \<Rightarrow> VerifiablePresentationBuilder" where
  "new_VerifiablePresentationBuilder holder = \<lparr>vpb_holder = holder, vpb_entries = []\<rparr>"

text \<open>Modelled from the spec: the builder accumulates (credential, disclosure mode,
  selected fields) tuples.\<close>

definition addVC :: "VerifiableCredential \<Rightarrow> VPType \<Rightarrow> string list
    \<Rightarrow> VerifiablePresentationBuilder \<Rightarrow> VerifiablePresentationBuilder" where
  "addVC vc t fs this = this\<lparr>vpb_entries := vpb_entries this @ [(vc, t, fs)]\<rparr>"

text \<open>Modelled from the spec: after the redaction the builder computes the presentation
  digest over the included credentials' digests in insertion order, and signs it with
  the holder's key under the authentication purpose; the presentation records the
  disclosure modes and the hash type of its digest (the module \<^verbatim>\<open>./vp\<close> is missing).\<close>

definition buildVP :: "Env \<Rightarrow> VPEnv \<Rightarrow> VerifiablePresentationBuilder
    \<Rightarrow> DidCall list \<times> (Error + VerifiablePresentation)" where
  "buildVP env vpenv this =
     (case redactAll vpenv (vpb_entries this) of
        Inl e \<Rightarrow> ([], Inl e)
      | Inr vcs \<Rightarrow>
         (let digest = hashDigests vpenv (map (\<lambda>entry. vc_digest (fst entry)) (vpb_entries this))
                         (DEFAULT_VP_HASH_TYPE vpenv)
          in case getKeyUrl (vpb_holder this) ''authentication'' of
               Inl e \<Rightarrow> ([GetKeyUrl ''authentication''], Inl e)
             | Inr signDidUrl \<Rightarrow>
                 (case signWithKey (vpb_holder this) (HexMessage digest) signDidUrl of
                    Inl e \<Rightarrow> ([GetKeyUrl ''authentication'', SignWithKey (HexMessage digest) signDidUrl], Inl e)
                  | Inr r \<Rightarrow>
                      ([GetKeyUrl ''authentication'', SignWithKey (HexMessage digest) signDidUrl],
                       Inr \<lparr>vp_type = map (\<lambda>entry. fst (snd entry)) (vpb_entries this),
                            vp_verifiableCredential = vcs,
                            vp_id = digest,
                            vp_proof =
                              \<lparr>pf_type = sig_type r,
                               pf_created = now env,
                               pf_verificationMethod = sig_id r,
                               pf_proofPurpose = ''authentication'',
                               pf_proofValue = base58Encode env (sig_signature r)\<rparr>,
                            vp_hasher = [DEFAULT_VP_HASH_TYPE vpenv]\<rparr>))))"

section \<open>Example values\<close>

text \<open>The claim sets of the presentation test, and collaborators that always succeed.\<close>

definition CONTENTS1 :: AnyJson where
  "CONTENTS1 = JObject [(''name'', JString ''zCloak''), (''age'', JNumber 19),
                        (''birthday'', JString ''2022.10.31''), (''isUser'', JBool True)]"

definition CONTENTS3 :: AnyJson where
  "CONTENTS3 = JObject [(''levels'', JArray [JString ''1'', JString ''2'', JString ''3''])]"

definition example_env :: Env where
  "example_env =
     \<lparr>checkSubject = (\<lambda>raw. True),
      calcDigest = (\<lambda>version payload hashType. Inr \<lparr>dr_digest = ''0xd1'' @ version, dr_type = hashType\<rparr>),
      signedVCMessage = (\<lambda>digest version. U8aMessage [67, 86, 68]),
      base58Encode = (\<lambda>bytes. ''z58''),
      now = 1667174400000,
      isRawCredential = (\<lambda>rc. True),
      Raw_fromRawCredential = (\<lambda>rc ctype.
         \<lparr>raw_contents = CONTENTS1, raw_hashType = Some (fst (rc_hasher rc)),
          raw_ctype = ctype, raw_owner = ''did:zk:holder''\<rparr>),
      DEFAULT_CONTEXT = [''https://www.w3.org/2018/credentials/v1''],
      DEFAULT_VC_VERSION = ''1''\<rparr>"

definition example_did :: "string \<Rightarrow> Did" where
  "example_did name =
     \<lparr>did_id = name,
      getKeyUrl = (\<lambda>purpose. Inr (name @ ''#'' @ purpose)),
      signWithKey = (\<lambda>message url.
         Inr \<lparr>sig_id = url, sig_signature = [1, 2, 3], sig_type = ''EcdsaSecp256k1Signature2019''\<rparr>)\<rparr>"

definition example_raw :: Raw where
  "example_raw =
     \<lparr>raw_contents = CONTENTS1, raw_hashType = Some ''Rescue'',
      raw_ctype = \<lparr>ct_id = ''0xc1''\<rparr>, raw_owner = ''did:zk:holder''\<rparr>"

definition example_metadata :: "string \<Rightarrow> Setter list" where
  "example_metadata version =
     [SetContext [''https://www.w3.org/2018/credentials/v1''], SetVersion version,
      SetIssuanceDate 1667174400000, SetDigestHashType ''Keccak256'']"

definition example_builder :: "string \<Rightarrow> VerifiableCredentialBuilder" where
  "example_builder version =
     foldl applySetter (new_VerifiableCredentialBuilder example_raw)
       (example_metadata version @ [SetExpirationDate Null])"

definition example_vc :: VerifiableCredential where
  "example_vc =
     \<lparr>vc_context = [''https://www.w3.org/2018/credentials/v1''],
      vc_version = ''1'',
      vc_ctype = ''0xc1'',
      vc_issuanceDate = 1667174400000,
      vc_credentialSubject = CONTENTS1,
      vc_issuer = ''did:zk:issuer'',
      vc_holder = ''did:zk:holder'',
      vc_hasher = (''Rescue'', ''Keccak256''),
      vc_digest = ''0xd11'',
      vc_proof = [\<lparr>pf_type = ''EcdsaSecp256k1Signature2019'', pf_created = 1667174400000,
                   pf_verificationMethod = ''did:zk:issuer#assertionMethod'',
                   pf_proofPurpose = ''assertionMethod'', pf_proofValue = ''z58''\<rparr>],
      vc_credentialSubjectHashes = Some [],
      vc_credentialSubjectNonceMap = Some [],
      vc_expirationDate = None\<rparr>"

definition example_vpenv :: VPEnv where
  "example_vpenv =
     \<lparr>hashDigests = (\<lambda>digests hashType. concat digests),
      DEFAULT_VP_HASH_TYPE = ''Keccak256'',
      nonceKeyOf = (\<lambda>name v. ''0x'' @ name)\<rparr>"

definition example_credential :: Credential where
  "example_credential =
     \<lparr>cred_context = Some [''https://www.w3.org/2018/credentials/v1''],
      cred_ctype = Some ''0xc1'',
      cred_issuanceDate = Some 1667174400000,
      cred_expirationDate = None,
      cred_credentialSubject = Some CONTENTS1,
      cred_issuer = Some ''did:zk:issuer'',
      cred_holder = Some ''did:zk:holder'',
      cred_digest = None,
      cred_proof = None,
      cred_hashType = Some ''Keccak256''\<rparr>"

definition example_credentialEnv :: CredentialEnv where
  "example_credentialEnv =
     \<lparr>ce_calcDigest = (\<lambda>payload hashType. Inr \<lparr>dr_digest = ''0xd0'', dr_type = ''Keccak256''\<rparr>),
      ce_base58Encode = (\<lambda>bytes. ''z58''),
      ce_now = 1667174400000\<rparr>"

definition example_credentialDid :: CredentialDid where
  "example_credentialDid =
     \<lparr>cd_signWithKey = (\<lambda>purpose digest.
        Inr \<lparr>ks_didUrl = ''did:zk:issuer#'' @ purpose, ks_signature = [1, 2, 3],
             ks_type = ''EcdsaSecp256k1VerificationKey2019''\<rparr>)\<rparr>"

section \<open>Facts about the commitment and the builders\<close>

lemma calcRoothash_value:
  "calcRoothash input type_arg nonceMap_arg =
     Inr \<lparr>hashes = [], nonceMap = [], rootHash = ''0x'',
          type = (case type_arg of None \<Rightarrow> DEFAULT_ROOT_HASH_TYPE | Some t \<Rightarrow> t)\<rparr>"
  by (simp add: calcRoothash_def rootHashFromMerkle_def)

lemma truthyString_iff: "truthyString x = (\<exists>s. x = Some s \<and> s \<noteq> [])"
  by (cases x) auto

lemma truthyNumber_iff: "truthyNumber x = (\<exists>n. x = Some n \<and> n \<noteq> 0)"
  by (cases x) auto

lemma signDigest_Inr:
  assumes "signDigest env did digest version = (calls, Inr p)"
  shows "\<exists>url r. getKeyUrl did ''assertionMethod'' = Inr url \<and>
           signWithKey did (if version = ''1'' then signedVCMessage env digest version else HexMessage digest) url = Inr r \<and>
           calls = [GetKeyUrl ''assertionMethod'',
                    SignWithKey (if version = ''1'' then signedVCMessage env digest version else HexMessage digest) url] \<and>
           p = \<lparr>pf_type = sig_type r, pf_created = now env, pf_verificationMethod = sig_id r,
                pf_proofPurpose = ''assertionMethod'', pf_proofValue = base58Encode env (sig_signature r)\<rparr>"
  using assms unfolding signDigest_def Let_def
  by (auto split: sum.splits if_splits)

lemma signDigest_calls:
  assumes "SignWithKey m url \<in> set (fst (signDigest env did digest version))"
  shows "m = (if version = ''1'' then signedVCMessage env digest version else HexMessage digest) \<and>
         getKeyUrl did ''assertionMethod'' = Inr url"
  using assms unfolding signDigest_def Let_def
  by (auto split: sum.splits if_splits)

text \<open>A successful \<open>build\<close>, read backwards: every step succeeded and the credential
  is assembled from the builder's fields and the results of the steps.\<close>

lemma build_Inr:
  assumes "build env b issuer isPublic = (calls, Inr vc)"
  shows "checkSubject env (b_raw b) \<and> buildReady b \<and>
     (\<exists>rh dr p.
        calcRoothash (raw_contents (b_raw b)) (raw_hashType (b_raw b))
           (if isPublic = Some True then None else Some []) = Inr rh \<and>
        calcDigest env (the (b_version b))
           \<lparr>dp_rootHash = rootHash rh,
            dp_expirationDate = truthyExpiration (b_expirationDate b),
            dp_holder = raw_owner (b_raw b),
            dp_ctype = ct_id (raw_ctype (b_raw b)),
            dp_issuanceDate = b_issuanceDate b\<rparr> (the (b_digestHashType b)) = Inr dr \<and>
        signDigest env issuer (dr_digest dr) (the (b_version b)) = (calls, Inr p) \<and>
        vc = \<lparr>vc_context = the (b_context b),
              vc_version = the (b_version b),
              vc_ctype = ct_id (raw_ctype (b_raw b)),
              vc_issuanceDate = the (b_issuanceDate b),
              vc_credentialSubject = raw_contents (b_raw b),
              vc_issuer = did_id issuer,
              vc_holder = raw_owner (b_raw b),
              vc_hasher = (type rh, dr_type dr),
              vc_digest = dr_digest dr,
              vc_proof = [p],
              vc_credentialSubjectHashes = (if isPublic = Some True then None else Some (hashes rh)),
              vc_credentialSubjectNonceMap = (if isPublic = Some True then None else Some (nonceMap rh)),
              vc_expirationDate = truthyExpiration (b_expirationDate b)\<rparr>)"
  using assms unfolding build_def Let_def
  by (auto split: sum.splits if_splits prod.splits option.splits)

lemma build_Inr_sign:
  assumes "build env b issuer isPublic = (calls, Inr vc)"
  shows "\<exists>p. signDigest env issuer (vc_digest vc) (vc_version vc) = (calls, Inr p) \<and>
             vc_proof vc = [p]"
  using build_Inr [OF assms] by auto

lemma build_refused:
  assumes "\<not> checkSubject env (b_raw b) \<or> \<not> buildReady b"
  shows "build env b issuer isPublic =
           ([], Inl (if \<not> checkSubject env (b_raw b)
                     then Error ''Subject check failed when use ctype [object Object]''
                     else Error ''Can not to build an VerifiableCredential''))"
  using assms unfolding build_def by auto

lemma buildReady_missing:
  assumes "b_context b = None \<or> b_version b = None \<or> b_issuanceDate b = None \<or>
           b_digestHashType b = None \<or> b_expirationDate b = None"
  shows "\<not> buildReady b"
  using assms unfolding buildReady_def by auto

text \<open>The calls that \<open>build\<close> makes on the issuer are those of its signing step, for
  the digest that \<^verbatim>\<open>calcDigest\<close> returned.\<close>

lemma build_calls_cases:
  "fst (build env b issuer isPublic) = [] \<or>
   (\<exists>payload dr.
      calcDigest env (the (b_version b)) payload (the (b_digestHashType b)) = Inr dr \<and>
      fst (build env b issuer isPublic) = fst (signDigest env issuer (dr_digest dr) (the (b_version b))))"
proof (cases "checkSubject env (b_raw b) \<and> buildReady b")
  case False
  then show ?thesis by (auto simp: build_refused)
next
  case True
  show ?thesis
  proof (cases "calcDigest env (the (b_version b))
           \<lparr>dp_rootHash = ''0x'',
            dp_expirationDate = truthyExpiration (b_expirationDate b),
            dp_holder = raw_owner (b_raw b),
            dp_ctype = ct_id (raw_ctype (b_raw b)),
            dp_issuanceDate = b_issuanceDate b\<rparr> (the (b_digestHashType b))")
    case (Inl e)
    with True have "fst (build env b issuer isPublic) = []"
      by (simp add: build_def calcRoothash_value)
    then show ?thesis ..
  next
    case (Inr dr)
    with True have "fst (build env b issuer isPublic) =
        fst (signDigest env issuer (dr_digest dr) (the (b_version b)))"
      by (simp add: build_def calcRoothash_value Let_def split: prod.splits sum.splits)
    with Inr show ?thesis by blast
  qed
qed

lemma build_calls:
  assumes "SignWithKey m url \<in> set (fst (build env b issuer isPublic))"
  shows "\<exists>payload dr.
           calcDigest env (the (b_version b)) payload (the (b_digestHashType b)) = Inr dr \<and>
           SignWithKey m url \<in> set (fst (signDigest env issuer (dr_digest dr) (the (b_version b))))"
proof -
  from build_calls_cases [of env b issuer isPublic] show ?thesis
  proof (elim disjE exE conjE)
    assume "fst (build env b issuer isPublic) = []"
    with assms show ?thesis by simp
  next
    fix payload dr
    assume dr: "calcDigest env (the (b_version b)) payload (the (b_digestHashType b)) = Inr dr"
      and eq: "fst (build env b issuer isPublic) =
                 fst (signDigest env issuer (dr_digest dr) (the (b_version b)))"
    from assms eq
    have "SignWithKey m url \<in> set (fst (signDigest env issuer (dr_digest dr) (the (b_version b))))"
      by simp
    with dr show ?thesis by blast
  qed
qed

text \<open>Only \<^verbatim>\<open>setExpirationDate\<close> assigns the field \<^verbatim>\<open>expirationDate\<close>.\<close>

lemma applySetter_expirationDate:
  "\<not> isSetExpirationDate s \<Longrightarrow> b_expirationDate (applySetter b s) = b_expirationDate b"
  by (cases s)
     (simp_all add: setContext_def setVersion_def setIssuanceDate_def setRaw_def setDigestHashType_def)

lemma foldl_applySetter_expirationDate:
  "\<not> list_ex isSetExpirationDate setters \<Longrightarrow>
     b_expirationDate (foldl applySetter b setters) = b_expirationDate b"
  by (induction setters arbitrary: b) (simp_all add: applySetter_expirationDate)

lemma fromRawCredential_expirationDate:
  "fromRawCredential env rc ct = Inr b \<Longrightarrow> b_expirationDate b = None"
  unfolding fromRawCredential_def Let_def
  by (auto simp: new_VerifiableCredentialBuilder_def setContext_def setVersion_def
      setIssuanceDate_def setDigestHashType_def split: if_splits)

lemma build_unset_expirationDate:
  assumes "b_expirationDate b = None"
  shows "build env b issuer isPublic =
           ([], Inl (if \<not> checkSubject env (b_raw b)
                     then Error ''Subject check failed when use ctype [object Object]''
                     else Error ''Can not to build an VerifiableCredential''))"
  using assms by (intro build_refused) (simp add: buildReady_def)

lemma signProof_Inr:
  assumes "signProof cenv c cdid = (ccalls, Inr c')"
  shows "\<exists>rh dr r st.
           calcRoothash (the (cred_credentialSubject c)) (cred_hashType c) None = Inr rh \<and>
           ce_calcDigest cenv
              \<lparr>dp_rootHash = rootHash rh, dp_expirationDate = cred_expirationDate c,
               dp_holder = the (cred_holder c), dp_ctype = the (cred_ctype c),
               dp_issuanceDate = None\<rparr> (cred_hashType c) = Inr dr \<and>
           cd_signWithKey cdid ''assertionMethod'' (dr_digest dr) = Inr r \<and>
           keyTypeToSignatureType (ks_type r) = Inr st \<and>
           ccalls = [SignWithKeyPurpose ''assertionMethod'' (dr_digest dr)] \<and>
           c' = c\<lparr>cred_digest := Some (dr_digest dr),
                  cred_proof := Some
                    \<lparr>pf_type = dr_type dr @ ''+'' @ st,
                     pf_created = ce_now cenv,
                     pf_verificationMethod = ks_didUrl r,
                     pf_proofPurpose = ''assertionMethod'',
                     pf_proofValue = ce_base58Encode cenv (ks_signature r)\<rparr>\<rparr>"
  using assms unfolding signProof_def
  by (auto split: sum.splits if_splits)

lemma buildVP_Inr:
  assumes "buildVP env vpenv vpb = (vcalls, Inr vp)"
  shows "\<exists>vcs url r.
           redactAll vpenv (vpb_entries vpb) = Inr vcs \<and>
           getKeyUrl (vpb_holder vpb) ''authentication'' = Inr url \<and>
           signWithKey (vpb_holder vpb)
             (HexMessage (hashDigests vpenv (map (\<lambda>entry. vc_digest (fst entry)) (vpb_entries vpb))
                            (DEFAULT_VP_HASH_TYPE vpenv))) url = Inr r \<and>
           vcalls = [GetKeyUrl ''authentication'',
                     SignWithKey (HexMessage (hashDigests vpenv (map (\<lambda>entry. vc_digest (fst entry)) (vpb_entries vpb))
                            (DEFAULT_VP_HASH_TYPE vpenv))) url] \<and>
           vp = \<lparr>vp_type = map (\<lambda>entry. fst (snd entry)) (vpb_entries vpb),
                 vp_verifiableCredential = vcs,
                 vp_id = hashDigests vpenv (map (\<lambda>entry. vc_digest (fst entry)) (vpb_entries vpb))
                            (DEFAULT_VP_HASH_TYPE vpenv),
                 vp_proof =
                   \<lparr>pf_type = sig_type r,
                    pf_created = now env,
                    pf_verificationMethod = sig_id r,
                    pf_proofPurpose = ''authentication'',
                    pf_proofValue = base58Encode env (sig_signature r)\<rparr>,
                 vp_hasher = [DEFAULT_VP_HASH_TYPE vpenv]\<rparr>"
  using assms unfolding buildVP_def Let_def
  by (auto split: sum.splits if_splits)

lemma redactAll_length:
  "redactAll vpenv entries = Inr vcs \<Longrightarrow> length vcs = length entries"
  by (induction entries arbitrary: vcs) (auto split: sum.splits)

lemma redactAll_nth:
  "redactAll vpenv entries = Inr vcs \<Longrightarrow> i < length entries \<Longrightarrow>
     redact vpenv (fst (snd (entries ! i))) (snd (snd (entries ! i))) (fst (entries ! i)) = Inr (vcs ! i)"
proof (induction entries arbitrary: vcs i)
  case Nil
  then show ?case by simp
next
  case (Cons entry rest)
  then show ?case
    by (cases i) (auto split: sum.splits)
qed

lemma redact_VP_Digest:
  assumes "redact vpenv VP_Digest fs vc = Inr vc'"
  shows "\<exists>r. calcRoothash (vc_credentialSubject vc) (Some (fst (vc_hasher vc)))
                (vc_credentialSubjectNonceMap vc) = Inr r \<and>
             vc' = vc\<lparr>vc_credentialSubject := JString (rootHash r),
                      vc_credentialSubjectHashes := Some [],
                      vc_credentialSubjectNonceMap := Some []\<rparr>"
  using assms unfolding redact_def by (auto split: sum.splits)

section \<open>The examples, evaluated\<close>

lemmas example_defs =
  example_env_def example_builder_def example_metadata_def example_did_def example_raw_def
  example_vc_def new_VerifiableCredentialBuilder_def setContext_def setVersion_def
  setIssuanceDate_def setExpirationDate_def setDigestHashType_def setRaw_def

lemma example_build_private:
  "build example_env (example_builder ''1'') (example_did ''did:zk:issuer'') None =
     ([GetKeyUrl ''assertionMethod'',
       SignWithKey (U8aMessage [67, 86, 68]) ''did:zk:issuer#assertionMethod''],
      Inr example_vc)"
  by (simp add: build_def buildReady_def signDigest_def calcRoothash_value example_defs)

lemma example_build_public:
  "build example_env (example_builder ''1'') (example_did ''did:zk:issuer'') (Some True) =
     ([GetKeyUrl ''assertionMethod'',
       SignWithKey (U8aMessage [67, 86, 68]) ''did:zk:issuer#assertionMethod''],
      Inr (example_vc\<lparr>vc_credentialSubjectHashes := None, vc_credentialSubjectNonceMap := None\<rparr>))"
  by (simp add: build_def buildReady_def signDigest_def calcRoothash_value example_defs)

lemma example_build_v2:
  "build example_env (example_builder ''2'') (example_did ''did:zk:issuer'') (Some False) =
     ([GetKeyUrl ''assertionMethod'',
       SignWithKey (HexMessage ''0xd12'') ''did:zk:issuer#assertionMethod''],
      Inr (example_vc\<lparr>vc_version := ''2'', vc_digest := ''0xd12''\<rparr>))"
  by (simp add: build_def buildReady_def signDigest_def calcRoothash_value example_defs)

lemma example_build_unset:
  "b_context (foldl applySetter (new_VerifiableCredentialBuilder example_raw) (example_metadata ''1'')) = None \<or>
   b_version (foldl applySetter (new_VerifiableCredentialBuilder example_raw) (example_metadata ''1'')) = None \<or>
   b_issuanceDate (foldl applySetter (new_VerifiableCredentialBuilder example_raw) (example_metadata ''1'')) = None \<or>
   b_digestHashType (foldl applySetter (new_VerifiableCredentialBuilder example_raw) (example_metadata ''1'')) = None \<or>
   b_expirationDate (foldl applySetter (new_VerifiableCredentialBuilder example_raw) (example_metadata ''1'')) = None \<or>
   \<not> checkSubject example_env
       (b_raw (foldl applySetter (new_VerifiableCredentialBuilder example_raw) (example_metadata ''1'')))"
  by (simp add: example_defs)

lemma example_fromRawCredential:
  "fromRawCredential example_env \<lparr>rc_ctype = ''0xc1'', rc_hasher = (''Rescue'', ''Keccak256'')\<rparr>
       \<lparr>ct_id = ''0xc1''\<rparr> =
     Inr (foldl applySetter (new_VerifiableCredentialBuilder example_raw) (example_metadata ''1''))"
  by (simp add: fromRawCredential_def example_defs)

lemma example_build_steps:
  "checkSubject example_env
      (b_raw (foldl applySetter (new_VerifiableCredentialBuilder example_raw) (example_metadata ''1''))) \<and>
   b_context (foldl applySetter (new_VerifiableCredentialBuilder example_raw) (example_metadata ''1'')) \<noteq> None \<and>
   truthyString (b_version (foldl applySetter (new_VerifiableCredentialBuilder example_raw) (example_metadata ''1''))) \<and>
   truthyNumber (b_issuanceDate (foldl applySetter (new_VerifiableCredentialBuilder example_raw) (example_metadata ''1''))) \<and>
   truthyString (b_digestHashType (foldl applySetter (new_VerifiableCredentialBuilder example_raw) (example_metadata ''1''))) \<and>
   calcRoothash
      (raw_contents (b_raw (foldl applySetter (new_VerifiableCredentialBuilder example_raw) (example_metadata ''1''))))
      (raw_hashType (b_raw (foldl applySetter (new_VerifiableCredentialBuilder example_raw) (example_metadata ''1''))))
      (if None = Some True then None else Some []) =
     Inr \<lparr>hashes = [], nonceMap = [], rootHash = ''0x'', type = ''Rescue''\<rparr> \<and>
   calcDigest example_env
      (the (b_version (foldl applySetter (new_VerifiableCredentialBuilder example_raw) (example_metadata ''1''))))
      \<lparr>dp_rootHash = rootHash \<lparr>hashes = [], nonceMap = [], rootHash = ''0x'', type = ''Rescue''\<rparr>,
       dp_expirationDate = None,
       dp_holder = raw_owner (b_raw (foldl applySetter (new_VerifiableCredentialBuilder example_raw) (example_metadata ''1''))),
       dp_ctype = ct_id (raw_ctype (b_raw (foldl applySetter (new_VerifiableCredentialBuilder example_raw) (example_metadata ''1'')))),
       dp_issuanceDate = b_issuanceDate (foldl applySetter (new_VerifiableCredentialBuilder example_raw) (example_metadata ''1''))\<rparr>
      (the (b_digestHashType (foldl applySetter (new_VerifiableCredentialBuilder example_raw) (example_metadata ''1'')))) =
     Inr \<lparr>dr_digest = ''0xd11'', dr_type = ''Keccak256''\<rparr> \<and>
   signDigest example_env (example_did ''did:zk:issuer'')
      (dr_digest \<lparr>dr_digest = ''0xd11'', dr_type = ''Keccak256''\<rparr>)
      (the (b_version (foldl applySetter (new_VerifiableCredentialBuilder example_raw) (example_metadata ''1'')))) =
     ([GetKeyUrl ''assertionMethod'',
       SignWithKey (U8aMessage [67, 86, 68]) ''did:zk:issuer#assertionMethod''],
      Inr \<lparr>pf_type = ''EcdsaSecp256k1Signature2019'', pf_created = 1667174400000,
           pf_verificationMethod = ''did:zk:issuer#assertionMethod'',
           pf_proofPurpose = ''assertionMethod'', pf_proofValue = ''z58''\<rparr>)"
  by (simp add: example_defs calcRoothash_value signDigest_def)

lemma example_signProof:
  "signProof example_credentialEnv example_credential example_credentialDid =
     ([SignWithKeyPurpose ''assertionMethod'' ''0xd0''],
      Inr (example_credential
             \<lparr>cred_digest := Some ''0xd0'',
              cred_proof := Some
                \<lparr>pf_type = ''Keccak256+EcdsaSecp256k1Signature2019'',
                 pf_created = 1667174400000,
                 pf_verificationMethod = ''did:zk:issuer#assertionMethod'',
                 pf_proofPurpose = ''assertionMethod'',
                 pf_proofValue = ''z58''\<rparr>\<rparr>))"
  by (simp add: signProof_def calcRoothash_value keyTypeToSignatureType_def
      example_credentialEnv_def example_credential_def example_credentialDid_def CONTENTS1_def)

lemma example_buildVP_digest:
  "buildVP example_env example_vpenv
      (addVC example_vc VP_Digest [] (new_VerifiablePresentationBuilder (example_did ''did:zk:holder''))) =
     ([GetKeyUrl ''authentication'',
       SignWithKey (HexMessage ''0xd11'') ''did:zk:holder#authentication''],
      Inr \<lparr>vp_type = [VP_Digest],
           vp_verifiableCredential =
             [example_vc\<lparr>vc_credentialSubject := JString ''0x'',
                         vc_credentialSubjectHashes := Some [],
                         vc_credentialSubjectNonceMap := Some []\<rparr>],
           vp_id = ''0xd11'',
           vp_proof =
             \<lparr>pf_type = ''EcdsaSecp256k1Signature2019'',
              pf_created = 1667174400000,
              pf_verificationMethod = ''did:zk:holder#authentication'',
              pf_proofPurpose = ''authentication'',
              pf_proofValue = ''z58''\<rparr>,
           vp_hasher = [''Keccak256'']\<rparr>)"
  by (simp add: buildVP_def Let_def redact_def addVC_def new_VerifiablePresentationBuilder_def
      calcRoothash_value example_vpenv_def example_env_def example_did_def example_vc_def)

section \<open>The commitment engine\<close>

text \<open>
  C1. The claim: \<^verbatim>\<open>calcRoothash(C, H, M)\<close> reuses the nonces of a supplied nonce map
  \<open>M\<close>, so that its result's \<^verbatim>\<open>nonceMap\<close> holds the entries of \<open>M\<close> for the leaves
  of \<open>C\<close>. The function overwrites its parameter with \<^verbatim>\<open>{}\<close>: for the one-leaf claim
  set \<^verbatim>\<open>{name: 'zCloak'}\<close> and a supplied map with one entry, the returned nonce map
  is empty, and so is the list of hashes.
\<close>

theorem calcRoothash_discards_supplied_nonceMap:
  "calcRoothash (JObject [(''name'', JString ''zCloak'')]) (Some ''Keccak256'')
       (Some [(''0xaa'', ''0x01'')]) =
     Inr \<lparr>hashes = [], nonceMap = [], rootHash = ''0x'', type = ''Keccak256''\<rparr>"
  by (simp add: calcRoothash_def rootHashFromMerkle_def)

text \<open>
  C2. The claim: for a non-empty claim set the returned \<^verbatim>\<open>hashes\<close> list has one entry
  per leaf claim, and \<^verbatim>\<open>rootHash\<close> is the hash of that list sorted as bytes. The first
  claim set of the presentation test has four leaves; \<^verbatim>\<open>calcRoothash\<close> returns no hash
  for it, and the constant \<^verbatim>\<open>'0x'\<close> as root hash.
\<close>

theorem calcRoothash_no_hash_per_leaf:
  "length (spec_leaves [] CONTENTS1) = 4 \<and>
   calcRoothash CONTENTS1 (Some ''Rescue'') None =
     Inr \<lparr>hashes = [], nonceMap = [], rootHash = ''0x'', type = ''Rescue''\<rparr>"
  by (simp add: calcRoothash_def rootHashFromMerkle_def CONTENTS1_def)

text \<open>
  C8. The root hash returned by the commitment does not depend on the order of the
  leaf claims: two claim sets whose leaves are permutations of each other get the same
  \<^verbatim>\<open>rootHash\<close>, for every hash type and nonce map, and both calls return.
\<close>

theorem rootHash_invariant_under_leaf_permutation:
  assumes "mset (spec_leaves [] C) = mset (spec_leaves [] C')"
  shows "\<exists>r r'. calcRoothash C H M = Inr r \<and> calcRoothash C' H M = Inr r' \<and>
                rootHash r = rootHash r'"
  by (simp add: calcRoothash_value)

theorem rootHash_invariant_under_leaf_permutation_witness:
  "mset (spec_leaves [] (JObject [(''name'', JString ''zCloak''), (''age'', JNumber 19)])) =
     mset (spec_leaves [] (JObject [(''age'', JNumber 19), (''name'', JString ''zCloak'')])) \<and>
   (\<exists>r r'. calcRoothash (JObject [(''name'', JString ''zCloak''), (''age'', JNumber 19)])
               (Some ''Rescue'') None = Inr r \<and>
           calcRoothash (JObject [(''age'', JNumber 19), (''name'', JString ''zCloak'')])
               (Some ''Rescue'') None = Inr r' \<and>
           rootHash r = rootHash r')"
proof -
  have perm: "mset (spec_leaves [] (JObject [(''name'', JString ''zCloak''), (''age'', JNumber 19)])) =
     mset (spec_leaves [] (JObject [(''age'', JNumber 19), (''name'', JString ''zCloak'')]))"
    by simp
  show ?thesis
    using perm rootHash_invariant_under_leaf_permutation [OF perm] by blast
qed

text \<open>
  C9. The claim: a claim set with zero leaf claims makes the commitment fail with
  \<^verbatim>\<open>EmptyClaimSetError\<close>. \<^verbatim>\<open>calcRoothash\<close> has no failing path: for the empty claim
  set \<^verbatim>\<open>{}\<close> it returns a result.
\<close>

theorem calcRoothash_empty_claim_set_counterexample:
  "spec_leaves [] (JObject []) = [] \<and>
   calcRoothash (JObject []) (Some ''Keccak256'') None =
     Inr \<lparr>hashes = [], nonceMap = [], rootHash = ''0x'', type = ''Keccak256''\<rparr>"
  by (simp add: calcRoothash_def rootHashFromMerkle_def)

text \<open>
  C9, as amended. For every claim set with zero leaf claims the commitment does not
  fail: \<^verbatim>\<open>calcRoothash\<close> returns a result whose list of hashes and nonce map are empty.
\<close>

theorem calcRoothash_empty_claim_set_returns:
  assumes "spec_leaves [] C = []"
  shows "\<exists>r. calcRoothash C H M = Inr r \<and> hashes r = [] \<and> nonceMap r = []"
  by (simp add: calcRoothash_value)

theorem calcRoothash_empty_claim_set_returns_witness:
  "spec_leaves [] (JObject [(''levels'', JArray [])]) = [] \<and>
   (\<exists>r. calcRoothash (JObject [(''levels'', JArray [])]) (Some ''Rescue'') None = Inr r \<and>
        hashes r = [] \<and> nonceMap r = [])"
proof -
  have empty: "spec_leaves [] (JObject [(''levels'', JArray [])]) = []"
    by simp
  show ?thesis
    using empty calcRoothash_empty_claim_set_returns [OF empty] by blast
qed

section \<open>The credential builder\<close>

text \<open>
  C4. A credential built with \<^verbatim>\<open>isPublic\<close> true has neither
  \<^verbatim>\<open>credentialSubjectHashes\<close> nor \<^verbatim>\<open>credentialSubjectNonceMap\<close>; one built with
  \<^verbatim>\<open>isPublic\<close> false or omitted has the whole list of hashes and the whole nonce map
  of the commitment that \<^verbatim>\<open>calcRoothash\<close> returned.
\<close>

theorem build_isPublic_hashes_and_nonceMap:
  assumes "build env b issuer isPublic = (calls, Inr vc)"
  shows "(isPublic = Some True \<longrightarrow>
            vc_credentialSubjectHashes vc = None \<and> vc_credentialSubjectNonceMap vc = None) \<and>
         (isPublic \<noteq> Some True \<longrightarrow>
            (\<exists>rh. calcRoothash (raw_contents (b_raw b)) (raw_hashType (b_raw b)) (Some []) = Inr rh \<and>
                  vc_credentialSubjectHashes vc = Some (hashes rh) \<and>
                  vc_credentialSubjectNonceMap vc = Some (nonceMap rh)))"
proof -
  from build_Inr [OF assms] obtain rh dr p where
    rh: "calcRoothash (raw_contents (b_raw b)) (raw_hashType (b_raw b))
           (if isPublic = Some True then None else Some []) = Inr rh"
    and h: "vc_credentialSubjectHashes vc = (if isPublic = Some True then None else Some (hashes rh))"
    and n: "vc_credentialSubjectNonceMap vc = (if isPublic = Some True then None else Some (nonceMap rh))"
    by auto
  show ?thesis
  proof (cases "isPublic = Some True")
    case True
    with h n show ?thesis by simp
  next
    case False
    with rh h n show ?thesis by auto
  qed
qed

theorem build_isPublic_hashes_and_nonceMap_witness:
  "(vc_credentialSubjectHashes
       (example_vc\<lparr>vc_credentialSubjectHashes := None, vc_credentialSubjectNonceMap := None\<rparr>) = None \<and>
    vc_credentialSubjectNonceMap
       (example_vc\<lparr>vc_credentialSubjectHashes := None, vc_credentialSubjectNonceMap := None\<rparr>) = None) \<and>
   (\<exists>rh. calcRoothash (raw_contents (b_raw (example_builder ''1'')))
            (raw_hashType (b_raw (example_builder ''1''))) (Some []) = Inr rh \<and>
         vc_credentialSubjectHashes example_vc = Some (hashes rh) \<and>
         vc_credentialSubjectNonceMap example_vc = Some (nonceMap rh))"
  using build_isPublic_hashes_and_nonceMap [OF example_build_public]
        build_isPublic_hashes_and_nonceMap [OF example_build_private]
  by simp

text \<open>
  C5. The proof of a built credential is made with the issuer's key for the purpose
  \<^verbatim>\<open>assertionMethod\<close> and carries \<^verbatim>\<open>proofPurpose: 'assertionMethod'\<close>: the builder
  asks the issuer for the key of that purpose and signs with it, and so does
  \<^verbatim>\<open>Credential.signProof\<close>. The proof of a built presentation is made with the
  holder's key for the purpose \<^verbatim>\<open>authentication\<close> and carries that purpose (this part
  on the presentation builder as the specification describes it).
\<close>

theorem proofs_carry_key_purpose:
  "(build env b issuer isPublic = (calls, Inr vc) \<longrightarrow>
      (\<exists>url m r. getKeyUrl issuer ''assertionMethod'' = Inr url \<and>
          signWithKey issuer m url = Inr r \<and>
          calls = [GetKeyUrl ''assertionMethod'', SignWithKey m url] \<and>
          vc_proof vc = [\<lparr>pf_type = sig_type r, pf_created = now env,
                          pf_verificationMethod = sig_id r,
                          pf_proofPurpose = ''assertionMethod'',
                          pf_proofValue = base58Encode env (sig_signature r)\<rparr>])) \<and>
   (signProof cenv c cdid = (ccalls, Inr c') \<longrightarrow>
      (\<exists>d r p. cd_signWithKey cdid ''assertionMethod'' d = Inr r \<and>
          ccalls = [SignWithKeyPurpose ''assertionMethod'' d] \<and>
          cred_digest c' = Some d \<and> cred_proof c' = Some p \<and>
          pf_verificationMethod p = ks_didUrl r \<and>
          pf_proofPurpose p = ''assertionMethod'' \<and>
          pf_proofValue p = ce_base58Encode cenv (ks_signature r))) \<and>
   (buildVP env vpenv vpb = (vcalls, Inr vp) \<longrightarrow>
      (\<exists>url r. getKeyUrl (vpb_holder vpb) ''authentication'' = Inr url \<and>
          signWithKey (vpb_holder vpb) (HexMessage (vp_id vp)) url = Inr r \<and>
          vcalls = [GetKeyUrl ''authentication'', SignWithKey (HexMessage (vp_id vp)) url] \<and>
          vp_proof vp = \<lparr>pf_type = sig_type r, pf_created = now env,
                          pf_verificationMethod = sig_id r,
                          pf_proofPurpose = ''authentication'',
                          pf_proofValue = base58Encode env (sig_signature r)\<rparr>))"
proof (intro conjI impI)
  assume a: "build env b issuer isPublic = (calls, Inr vc)"
  from build_Inr_sign [OF a] obtain p where
    s: "signDigest env issuer (vc_digest vc) (vc_version vc) = (calls, Inr p)"
    and v: "vc_proof vc = [p]"
    by blast
  from signDigest_Inr [OF s] v
  show "\<exists>url m r. getKeyUrl issuer ''assertionMethod'' = Inr url \<and>
          signWithKey issuer m url = Inr r \<and>
          calls = [GetKeyUrl ''assertionMethod'', SignWithKey m url] \<and>
          vc_proof vc = [\<lparr>pf_type = sig_type r, pf_created = now env,
                          pf_verificationMethod = sig_id r,
                          pf_proofPurpose = ''assertionMethod'',
                          pf_proofValue = base58Encode env (sig_signature r)\<rparr>]"
    by blast
next
  assume a: "signProof cenv c cdid = (ccalls, Inr c')"
  from signProof_Inr [OF a]
  show "\<exists>d r p. cd_signWithKey cdid ''assertionMethod'' d = Inr r \<and>
          ccalls = [SignWithKeyPurpose ''assertionMethod'' d] \<and>
          cred_digest c' = Some d \<and> cred_proof c' = Some p \<and>
          pf_verificationMethod p = ks_didUrl r \<and>
          pf_proofPurpose p = ''assertionMethod'' \<and>
          pf_proofValue p = ce_base58Encode cenv (ks_signature r)"
    by auto
next
  assume a: "buildVP env vpenv vpb = (vcalls, Inr vp)"
  from buildVP_Inr [OF a]
  show "\<exists>url r. getKeyUrl (vpb_holder vpb) ''authentication'' = Inr url \<and>
          signWithKey (vpb_holder vpb) (HexMessage (vp_id vp)) url = Inr r \<and>
          vcalls = [GetKeyUrl ''authentication'', SignWithKey (HexMessage (vp_id vp)) url] \<and>
          vp_proof vp = \<lparr>pf_type = sig_type r, pf_created = now env,
                          pf_verificationMethod = sig_id r,
                          pf_proofPurpose = ''authentication'',
                          pf_proofValue = base58Encode env (sig_signature r)\<rparr>"
    by auto
qed

theorem proofs_carry_key_purpose_witness:
  "(\<exists>url m r. getKeyUrl (example_did ''did:zk:issuer'') ''assertionMethod'' = Inr url \<and>
       signWithKey (example_did ''did:zk:issuer'') m url = Inr r \<and>
       [GetKeyUrl ''assertionMethod'',
        SignWithKey (U8aMessage [67, 86, 68]) ''did:zk:issuer#assertionMethod''] =
         [GetKeyUrl ''assertionMethod'', SignWithKey m url] \<and>
       vc_proof example_vc =
         [\<lparr>pf_type = sig_type r, pf_created = now example_env,
           pf_verificationMethod = sig_id r,
           pf_proofPurpose = ''assertionMethod'',
           pf_proofValue = base58Encode example_env (sig_signature r)\<rparr>]) \<and>
   (\<exists>d r. cd_signWithKey example_credentialDid ''assertionMethod'' d = Inr r \<and>
       [SignWithKeyPurpose ''assertionMethod'' ''0xd0''] = [SignWithKeyPurpose ''assertionMethod'' d]) \<and>
   (\<exists>url r. getKeyUrl (example_did ''did:zk:holder'') ''authentication'' = Inr url \<and>
       signWithKey (example_did ''did:zk:holder'') (HexMessage ''0xd11'') url = Inr r \<and>
       [GetKeyUrl ''authentication'',
        SignWithKey (HexMessage ''0xd11'') ''did:zk:holder#authentication''] =
         [GetKeyUrl ''authentication'', SignWithKey (HexMessage ''0xd11'') url])"
proof -
  note issued = proofs_carry_key_purpose [THEN conjunct1, rule_format, OF example_build_private]
  note signed = proofs_carry_key_purpose [THEN conjunct2, THEN conjunct1, rule_format, OF example_signProof]
  note presented = proofs_carry_key_purpose [THEN conjunct2, THEN conjunct2, rule_format, OF example_buildVP_digest]
  have "\<exists>d r. cd_signWithKey example_credentialDid ''assertionMethod'' d = Inr r \<and>
       [SignWithKeyPurpose ''assertionMethod'' ''0xd0''] = [SignWithKeyPurpose ''assertionMethod'' d]"
    using signed by blast
  moreover have "\<exists>url r. getKeyUrl (example_did ''did:zk:holder'') ''authentication'' = Inr url \<and>
       signWithKey (example_did ''did:zk:holder'') (HexMessage ''0xd11'') url = Inr r \<and>
       [GetKeyUrl ''authentication'',
        SignWithKey (HexMessage ''0xd11'') ''did:zk:holder#authentication''] =
         [GetKeyUrl ''authentication'', SignWithKey (HexMessage ''0xd11'') url]"
    using presented by (auto simp: addVC_def new_VerifiablePresentationBuilder_def)
  ultimately show ?thesis using issued by blast
qed

text \<open>
  C6. The message that \<open>build\<close> hands to the issuer's signer: for version \<^verbatim>\<open>'1'\<close> it
  is \<^verbatim>\<open>signedVCMessage(digest, version)\<close>, for every other version it is the digest
  itself. This holds for every call of \<^verbatim>\<open>signWithKey\<close> that a build makes, whatever
  its outcome; a successful build makes exactly one, on the digest of the credential.
\<close>

theorem build_message_handed_to_signer:
  assumes "build env b issuer isPublic = (calls, outcome)"
  shows "(SignWithKey m url \<in> set calls \<longrightarrow>
            (\<exists>payload dr.
               calcDigest env (the (b_version b)) payload (the (b_digestHashType b)) = Inr dr \<and>
               m = (if b_version b = Some ''1''
                    then signedVCMessage env (dr_digest dr) ''1''
                    else HexMessage (dr_digest dr)))) \<and>
         (outcome = Inr vc \<longrightarrow>
            (\<exists>key. calls = [GetKeyUrl ''assertionMethod'',
                     SignWithKey (if vc_version vc = ''1''
                                  then signedVCMessage env (vc_digest vc) ''1''
                                  else HexMessage (vc_digest vc)) key]))"
proof (intro conjI impI)
  assume "SignWithKey m url \<in> set calls"
  with assms have called: "SignWithKey m url \<in> set (fst (build env b issuer isPublic))" by simp
  from build_calls [OF called] obtain payload dr where
    dr: "calcDigest env (the (b_version b)) payload (the (b_digestHashType b)) = Inr dr"
    and d: "SignWithKey m url \<in> set (fst (signDigest env issuer (dr_digest dr) (the (b_version b))))"
    by blast
  have ready: "buildReady b"
  proof (rule ccontr)
    assume "\<not> buildReady b"
    then have "fst (build env b issuer isPublic) = []" by (simp add: build_refused)
    with called show False by simp
  qed
  then obtain v where v: "b_version b = Some v"
    unfolding buildReady_def by (cases "b_version b") auto
  from signDigest_calls [OF d] v
  have "m = (if b_version b = Some ''1''
             then signedVCMessage env (dr_digest dr) ''1''
             else HexMessage (dr_digest dr))"
    by auto
  with dr show "\<exists>payload dr.
               calcDigest env (the (b_version b)) payload (the (b_digestHashType b)) = Inr dr \<and>
               m = (if b_version b = Some ''1''
                    then signedVCMessage env (dr_digest dr) ''1''
                    else HexMessage (dr_digest dr))"
    by blast
next
  assume "outcome = Inr vc"
  with assms have a: "build env b issuer isPublic = (calls, Inr vc)" by simp
  from build_Inr_sign [OF a] obtain p where
    s: "signDigest env issuer (vc_digest vc) (vc_version vc) = (calls, Inr p)"
    by blast
  from signDigest_Inr [OF s]
  show "\<exists>key. calls = [GetKeyUrl ''assertionMethod'',
                     SignWithKey (if vc_version vc = ''1''
                                  then signedVCMessage env (vc_digest vc) ''1''
                                  else HexMessage (vc_digest vc)) key]"
    by auto
qed

theorem build_message_handed_to_signer_witness:
  "SignWithKey (U8aMessage [67, 86, 68]) ''did:zk:issuer#assertionMethod''
      \<in> set [GetKeyUrl ''assertionMethod'',
               SignWithKey (U8aMessage [67, 86, 68]) ''did:zk:issuer#assertionMethod''] \<and>
   (\<exists>payload dr. calcDigest example_env ''1'' payload ''Keccak256'' = Inr dr \<and>
        U8aMessage [67, 86, 68] = signedVCMessage example_env (dr_digest dr) ''1'') \<and>
   (\<exists>key. [GetKeyUrl ''assertionMethod'',
            SignWithKey (HexMessage ''0xd12'') ''did:zk:issuer#assertionMethod''] =
           [GetKeyUrl ''assertionMethod'', SignWithKey (HexMessage ''0xd12'') key])"
proof -
  have handed: "SignWithKey (U8aMessage [67, 86, 68]) ''did:zk:issuer#assertionMethod''
      \<in> set [GetKeyUrl ''assertionMethod'',
               SignWithKey (U8aMessage [67, 86, 68]) ''did:zk:issuer#assertionMethod'']"
    by simp
  have version1: "b_version (example_builder ''1'') = Some ''1''"
    and hashType1: "b_digestHashType (example_builder ''1'') = Some ''Keccak256''"
    by (simp_all add: example_defs)
  note tagged = build_message_handed_to_signer [OF example_build_private, THEN conjunct1, rule_format, OF handed]
  note plain = build_message_handed_to_signer [OF example_build_v2, THEN conjunct2, rule_format, OF refl]
  have "\<exists>payload dr. calcDigest example_env ''1'' payload ''Keccak256'' = Inr dr \<and>
        U8aMessage [67, 86, 68] = signedVCMessage example_env (dr_digest dr) ''1''"
    using tagged version1 hashType1 by simp
  moreover have "\<exists>key. [GetKeyUrl ''assertionMethod'',
            SignWithKey (HexMessage ''0xd12'') ''did:zk:issuer#assertionMethod''] =
           [GetKeyUrl ''assertionMethod'', SignWithKey (HexMessage ''0xd12'') key]"
    using plain by (simp add: example_vc_def)
  ultimately show ?thesis using handed by blast
qed

text \<open>
  C7. Construction is all or nothing. When the context, the version, the issuance
  date, the digest hash type or the expiration-date setting is missing, or the subject
  check fails, \<open>build\<close> throws and has called no signer. A build that returns a
  credential has passed the subject check and took the context, the version, the
  issuance date and the expiration date from the builder's own fields, none of them
  missing. Likewise \<^verbatim>\<open>getRawCredential\<close> and \<^verbatim>\<open>getVC\<close> throw when a required field of
  the credential is missing.
\<close>

theorem build_all_or_nothing:
  "((b_context b = None \<or> b_version b = None \<or> b_issuanceDate b = None \<or>
     b_digestHashType b = None \<or> b_expirationDate b = None \<or> \<not> checkSubject env (b_raw b)) \<longrightarrow>
      build env b issuer isPublic =
        ([], Inl (if \<not> checkSubject env (b_raw b)
                  then Error ''Subject check failed when use ctype [object Object]''
                  else Error ''Can not to build an VerifiableCredential''))) \<and>
   (build env b issuer isPublic = (calls, Inr vc) \<longrightarrow>
      checkSubject env (b_raw b) \<and>
      b_context b = Some (vc_context vc) \<and>
      b_version b = Some (vc_version vc) \<and>
      b_issuanceDate b = Some (vc_issuanceDate vc) \<and>
      b_digestHashType b \<noteq> None \<and>
      b_expirationDate b \<noteq> None \<and>
      vc_expirationDate vc = truthyExpiration (b_expirationDate b)) \<and>
   ((cred_context c = None \<or> cred_ctype c = None \<or> cred_issuanceDate c = None \<or>
     cred_credentialSubject c = None \<or> cred_issuer c = None \<or> cred_holder c = None) \<longrightarrow>
      getRawCredential c = Inl (Error ''Not to serialize RawCredential'') \<and>
      getVC c = Inl (Error ''Not to serialize RawCredential''))"
proof (intro conjI)
  show "(b_context b = None \<or> b_version b = None \<or> b_issuanceDate b = None \<or>
     b_digestHashType b = None \<or> b_expirationDate b = None \<or> \<not> checkSubject env (b_raw b)) \<longrightarrow>
      build env b issuer isPublic =
        ([], Inl (if \<not> checkSubject env (b_raw b)
                  then Error ''Subject check failed when use ctype [object Object]''
                  else Error ''Can not to build an VerifiableCredential''))"
  proof
    assume "b_context b = None \<or> b_version b = None \<or> b_issuanceDate b = None \<or>
       b_digestHashType b = None \<or> b_expirationDate b = None \<or> \<not> checkSubject env (b_raw b)"
    then have "\<not> checkSubject env (b_raw b) \<or> \<not> buildReady b"
      using buildReady_missing [of b] by blast
    then show "build env b issuer isPublic =
          ([], Inl (if \<not> checkSubject env (b_raw b)
                    then Error ''Subject check failed when use ctype [object Object]''
                    else Error ''Can not to build an VerifiableCredential''))"
      by (rule build_refused)
  qed
next
  show "build env b issuer isPublic = (calls, Inr vc) \<longrightarrow>
      checkSubject env (b_raw b) \<and>
      b_context b = Some (vc_context vc) \<and>
      b_version b = Some (vc_version vc) \<and>
      b_issuanceDate b = Some (vc_issuanceDate vc) \<and>
      b_digestHashType b \<noteq> None \<and>
      b_expirationDate b \<noteq> None \<and>
      vc_expirationDate vc = truthyExpiration (b_expirationDate b)"
  proof
    assume a: "build env b issuer isPublic = (calls, Inr vc)"
    from build_Inr [OF a] have chk: "checkSubject env (b_raw b)" and ready: "buildReady b"
      and ctx: "vc_context vc = the (b_context b)" and ver: "vc_version vc = the (b_version b)"
      and iss: "vc_issuanceDate vc = the (b_issuanceDate b)"
      and exp: "vc_expirationDate vc = truthyExpiration (b_expirationDate b)"
      by auto
    from ready have "b_context b \<noteq> None \<and> b_version b \<noteq> None \<and> b_issuanceDate b \<noteq> None \<and>
        b_digestHashType b \<noteq> None \<and> b_expirationDate b \<noteq> None"
      unfolding buildReady_def by (auto simp: truthyString_iff truthyNumber_iff)
    with chk ctx ver iss exp
    show "checkSubject env (b_raw b) \<and>
        b_context b = Some (vc_context vc) \<and>
        b_version b = Some (vc_version vc) \<and>
        b_issuanceDate b = Some (vc_issuanceDate vc) \<and>
        b_digestHashType b \<noteq> None \<and>
        b_expirationDate b \<noteq> None \<and>
        vc_expirationDate vc = truthyExpiration (b_expirationDate b)"
      by auto
  qed
next
  show "(cred_context c = None \<or> cred_ctype c = None \<or> cred_issuanceDate c = None \<or>
     cred_credentialSubject c = None \<or> cred_issuer c = None \<or> cred_holder c = None) \<longrightarrow>
      getRawCredential c = Inl (Error ''Not to serialize RawCredential'') \<and>
      getVC c = Inl (Error ''Not to serialize RawCredential'')"
    unfolding getVC_def getRawCredential_def by auto
qed

theorem build_all_or_nothing_witness:
  "build example_env
      (foldl applySetter (new_VerifiableCredentialBuilder example_raw) (example_metadata ''1''))
      (example_did ''did:zk:issuer'') None =
     ([], Inl (Error ''Can not to build an VerifiableCredential'')) \<and>
   build (example_env\<lparr>checkSubject := \<lambda>raw. False\<rparr>) (example_builder ''1'')
      (example_did ''did:zk:issuer'') None =
     ([], Inl (Error ''Subject check failed when use ctype [object Object]'')) \<and>
   b_version (example_builder ''1'') = Some (vc_version example_vc) \<and>
   b_issuanceDate (example_builder ''1'') = Some (vc_issuanceDate example_vc) \<and>
   getRawCredential (example_credential\<lparr>cred_holder := None\<rparr>) =
     Inl (Error ''Not to serialize RawCredential'') \<and>
   getVC (example_credential\<lparr>cred_holder := None\<rparr>) =
     Inl (Error ''Not to serialize RawCredential'')"
proof -
  have failing: "b_context (example_builder ''1'') = None \<or>
      b_version (example_builder ''1'') = None \<or>
      b_issuanceDate (example_builder ''1'') = None \<or>
      b_digestHashType (example_builder ''1'') = None \<or>
      b_expirationDate (example_builder ''1'') = None \<or>
      \<not> checkSubject (example_env\<lparr>checkSubject := \<lambda>raw. False\<rparr>) (b_raw (example_builder ''1''))"
    by simp
  have headless: "cred_context (example_credential\<lparr>cred_holder := None\<rparr>) = None \<or>
      cred_ctype (example_credential\<lparr>cred_holder := None\<rparr>) = None \<or>
      cred_issuanceDate (example_credential\<lparr>cred_holder := None\<rparr>) = None \<or>
      cred_credentialSubject (example_credential\<lparr>cred_holder := None\<rparr>) = None \<or>
      cred_issuer (example_credential\<lparr>cred_holder := None\<rparr>) = None \<or>
      cred_holder (example_credential\<lparr>cred_holder := None\<rparr>) = None"
    by simp
  note unset = build_all_or_nothing [THEN conjunct1, rule_format, OF example_build_unset,
      of "example_did ''did:zk:issuer''" None]
  note rejected = build_all_or_nothing [THEN conjunct1, rule_format, OF failing,
      of "example_did ''did:zk:issuer''" None]
  note built = build_all_or_nothing [THEN conjunct2, THEN conjunct1, rule_format, OF example_build_private]
  note raw = build_all_or_nothing [THEN conjunct2, THEN conjunct2, rule_format, OF headless]
  have "build example_env
      (foldl applySetter (new_VerifiableCredentialBuilder example_raw) (example_metadata ''1''))
      (example_did ''did:zk:issuer'') None =
     ([], Inl (Error ''Can not to build an VerifiableCredential''))"
    using unset by (simp add: example_env_def)
  moreover have "build (example_env\<lparr>checkSubject := \<lambda>raw. False\<rparr>) (example_builder ''1'')
      (example_did ''did:zk:issuer'') None =
     ([], Inl (Error ''Subject check failed when use ctype [object Object]''))"
    using rejected by simp
  ultimately show ?thesis using built raw by simp
qed

text \<open>
  C10. A builder on which \<^verbatim>\<open>setExpirationDate\<close> was never called cannot build,
  whatever other setters were called on it after its construction (by \<^verbatim>\<open>new\<close> or by
  \<^verbatim>\<open>fromRawCredential\<close>): \<open>build\<close> throws. After \<^verbatim>\<open>setExpirationDate(null)\<close>, with the
  other metadata present, the subject check passed and the digest and signing steps
  successful, \<open>build\<close> returns a credential, and it has no \<^verbatim>\<open>expirationDate\<close>.
\<close>

theorem build_requires_setExpirationDate:
  "(\<not> list_ex isSetExpirationDate setters \<longrightarrow>
      (\<exists>e. build env (foldl applySetter (new_VerifiableCredentialBuilder raw) setters) issuer isPublic =
             ([], Inl e))) \<and>
   (fromRawCredential env0 rc ct = Inr b0 \<and> \<not> list_ex isSetExpirationDate setters \<longrightarrow>
      (\<exists>e. build env (foldl applySetter b0 setters) issuer isPublic = ([], Inl e))) \<and>
   (checkSubject env (b_raw b) \<and> b_context b \<noteq> None \<and> truthyString (b_version b) \<and>
    truthyNumber (b_issuanceDate b) \<and> truthyString (b_digestHashType b) \<and>
    calcRoothash (raw_contents (b_raw b)) (raw_hashType (b_raw b))
       (if isPublic = Some True then None else Some []) = Inr rh \<and>
    calcDigest env (the (b_version b))
       \<lparr>dp_rootHash = rootHash rh, dp_expirationDate = None,
        dp_holder = raw_owner (b_raw b), dp_ctype = ct_id (raw_ctype (b_raw b)),
        dp_issuanceDate = b_issuanceDate b\<rparr> (the (b_digestHashType b)) = Inr dr \<and>
    signDigest env issuer (dr_digest dr) (the (b_version b)) = (calls, Inr p) \<longrightarrow>
      (\<exists>vc. build env (setExpirationDate Null b) issuer isPublic = (calls, Inr vc) \<and>
            vc_expirationDate vc = None))"
proof (intro conjI)
  show "\<not> list_ex isSetExpirationDate setters \<longrightarrow>
      (\<exists>e. build env (foldl applySetter (new_VerifiableCredentialBuilder raw) setters) issuer isPublic =
             ([], Inl e))"
  proof
    assume "\<not> list_ex isSetExpirationDate setters"
    then have "b_expirationDate (foldl applySetter (new_VerifiableCredentialBuilder raw) setters) = None"
      by (simp add: foldl_applySetter_expirationDate new_VerifiableCredentialBuilder_def)
    from build_unset_expirationDate [OF this]
    show "\<exists>e. build env (foldl applySetter (new_VerifiableCredentialBuilder raw) setters) issuer isPublic =
             ([], Inl e)"
      by blast
  qed
next
  show "fromRawCredential env0 rc ct = Inr b0 \<and> \<not> list_ex isSetExpirationDate setters \<longrightarrow>
      (\<exists>e. build env (foldl applySetter b0 setters) issuer isPublic = ([], Inl e))"
  proof
    assume "fromRawCredential env0 rc ct = Inr b0 \<and> \<not> list_ex isSetExpirationDate setters"
    then have "b_expirationDate (foldl applySetter b0 setters) = None"
      using fromRawCredential_expirationDate [of env0 rc ct b0]
      by (simp add: foldl_applySetter_expirationDate)
    from build_unset_expirationDate [OF this]
    show "\<exists>e. build env (foldl applySetter b0 setters) issuer isPublic = ([], Inl e)"
      by blast
  qed
next
  show "checkSubject env (b_raw b) \<and> b_context b \<noteq> None \<and> truthyString (b_version b) \<and>
    truthyNumber (b_issuanceDate b) \<and> truthyString (b_digestHashType b) \<and>
    calcRoothash (raw_contents (b_raw b)) (raw_hashType (b_raw b))
       (if isPublic = Some True then None else Some []) = Inr rh \<and>
    calcDigest env (the (b_version b))
       \<lparr>dp_rootHash = rootHash rh, dp_expirationDate = None,
        dp_holder = raw_owner (b_raw b), dp_ctype = ct_id (raw_ctype (b_raw b)),
        dp_issuanceDate = b_issuanceDate b\<rparr> (the (b_digestHashType b)) = Inr dr \<and>
    signDigest env issuer (dr_digest dr) (the (b_version b)) = (calls, Inr p) \<longrightarrow>
      (\<exists>vc. build env (setExpirationDate Null b) issuer isPublic = (calls, Inr vc) \<and>
            vc_expirationDate vc = None)"
  proof (cases "isPublic = Some True")
    case True
    then show ?thesis
      by (auto simp: build_def buildReady_def setExpirationDate_def)
  next
    case False
    then show ?thesis
      by (auto simp: build_def buildReady_def setExpirationDate_def)
  qed
qed

theorem build_requires_setExpirationDate_witness:
  "(\<exists>e. build example_env
          (foldl applySetter (new_VerifiableCredentialBuilder example_raw) (example_metadata ''1''))
          (example_did ''did:zk:issuer'') None = ([], Inl e)) \<and>
   (\<exists>e. build example_env
          (foldl applySetter
             (foldl applySetter (new_VerifiableCredentialBuilder example_raw) (example_metadata ''1''))
             [SetVersion ''2''])
          (example_did ''did:zk:issuer'') None = ([], Inl e)) \<and>
   (\<exists>vc. build example_env
           (setExpirationDate Null
              (foldl applySetter (new_VerifiableCredentialBuilder example_raw) (example_metadata ''1'')))
           (example_did ''did:zk:issuer'') None =
           ([GetKeyUrl ''assertionMethod'',
             SignWithKey (U8aMessage [67, 86, 68]) ''did:zk:issuer#assertionMethod''], Inr vc) \<and>
         vc_expirationDate vc = None)"
proof -
  have never: "\<not> list_ex isSetExpirationDate (example_metadata ''1'')"
    by (simp add: example_metadata_def)
  have fresh: "fromRawCredential example_env
        \<lparr>rc_ctype = ''0xc1'', rc_hasher = (''Rescue'', ''Keccak256'')\<rparr> \<lparr>ct_id = ''0xc1''\<rparr> =
      Inr (foldl applySetter (new_VerifiableCredentialBuilder example_raw) (example_metadata ''1'')) \<and>
      \<not> list_ex isSetExpirationDate [SetVersion ''2'']"
    by (simp add: example_fromRawCredential)
  note unset = build_requires_setExpirationDate [THEN conjunct1, rule_format, OF never]
  note unset_fresh = build_requires_setExpirationDate [THEN conjunct2, THEN conjunct1, rule_format, OF fresh]
  note null = build_requires_setExpirationDate [THEN conjunct2, THEN conjunct2, rule_format, OF example_build_steps]
  show ?thesis
    by (intro conjI unset unset_fresh null)
qed

section \<open>Redaction in a presentation\<close>

text \<open>
  C3. A credential that the presentation builder includes in the mode
  \<^verbatim>\<open>VP_Digest\<close> appears in the presentation, at the same position, with its
  \<^verbatim>\<open>credentialSubject\<close> replaced by the root hash, its list of hashes and its nonce map
  empty, and every other field, the digest and the proof among them, as in the input
  credential.
\<close>

theorem digestOnly_redaction:
  assumes "buildVP env vpenv vpb = (calls, Inr vp)"
    and "i < length (vpb_entries vpb)"
    and "vpb_entries vpb ! i = (vc, VP_Digest, fs)"
  shows "\<exists>r. calcRoothash (vc_credentialSubject vc) (Some (fst (vc_hasher vc)))
                (vc_credentialSubjectNonceMap vc) = Inr r \<and>
             i < length (vp_verifiableCredential vp) \<and>
             vp_verifiableCredential vp ! i =
               vc\<lparr>vc_credentialSubject := JString (rootHash r),
                   vc_credentialSubjectHashes := Some [],
                   vc_credentialSubjectNonceMap := Some []\<rparr> \<and>
             vc_credentialSubject (vp_verifiableCredential vp ! i) = JString (rootHash r) \<and>
             vc_credentialSubjectHashes (vp_verifiableCredential vp ! i) = Some [] \<and>
             vc_credentialSubjectNonceMap (vp_verifiableCredential vp ! i) = Some [] \<and>
             vc_digest (vp_verifiableCredential vp ! i) = vc_digest vc \<and>
             vc_proof (vp_verifiableCredential vp ! i) = vc_proof vc"
proof -
  from buildVP_Inr [OF assms(1)] obtain vcs where
    all: "redactAll vpenv (vpb_entries vpb) = Inr vcs" and vcs: "vp_verifiableCredential vp = vcs"
    by force
  from redactAll_nth [OF all assms(2)] assms(3)
  have "redact vpenv VP_Digest fs vc = Inr (vcs ! i)" by simp
  from redact_VP_Digest [OF this] obtain r where
    r: "calcRoothash (vc_credentialSubject vc) (Some (fst (vc_hasher vc)))
          (vc_credentialSubjectNonceMap vc) = Inr r"
    and entry: "vcs ! i = vc\<lparr>vc_credentialSubject := JString (rootHash r),
                   vc_credentialSubjectHashes := Some [],
                   vc_credentialSubjectNonceMap := Some []\<rparr>"
    by blast
  from redactAll_length [OF all] assms(2) have "i < length vcs" by simp
  with r entry vcs show ?thesis by simp
qed

theorem digestOnly_redaction_witness:
  "\<exists>r. calcRoothash (vc_credentialSubject example_vc) (Some (fst (vc_hasher example_vc)))
          (vc_credentialSubjectNonceMap example_vc) = Inr r \<and>
       vc_credentialSubject
         (example_vc\<lparr>vc_credentialSubject := JString ''0x'',
                     vc_credentialSubjectHashes := Some [],
                     vc_credentialSubjectNonceMap := Some []\<rparr>) = JString (rootHash r) \<and>
       vc_digest
         (example_vc\<lparr>vc_credentialSubject := JString ''0x'',
                     vc_credentialSubjectHashes := Some [],
                     vc_credentialSubjectNonceMap := Some []\<rparr>) = vc_digest example_vc \<and>
       vc_proof
         (example_vc\<lparr>vc_credentialSubject := JString ''0x'',
                     vc_credentialSubjectHashes := Some [],
                     vc_credentialSubjectNonceMap := Some []\<rparr>) = vc_proof example_vc"
proof -
  have index: "0 < length (vpb_entries
      (addVC example_vc VP_Digest [] (new_VerifiablePresentationBuilder (example_did ''did:zk:holder''))))"
    by (simp add: addVC_def new_VerifiablePresentationBuilder_def)
  have entry: "vpb_entries
      (addVC example_vc VP_Digest [] (new_VerifiablePresentationBuilder (example_did ''did:zk:holder''))) ! 0 =
      (example_vc, VP_Digest, [])"
    by (simp add: addVC_def new_VerifiablePresentationBuilder_def)
  from digestOnly_redaction [OF example_buildVP_digest index entry]
  show ?thesis by auto
qed

end
